theory Spec2Isabelle
  imports Complex_Main "HOL-Library.Multiset"
begin

section \<open>Python text primitives\<close>

text \<open>
  Texts are Isabelle strings: lists of 8-bit characters. Python's \<open>str\<close> holds code
  points; the character classes below are Python's on the code points 0 to 255.
  \<open>isspace\<close> is \<open>str.isspace\<close> on one character and also the class \<open>\s\<close> of \<open>re\<close>.
\<close>

definition isspace :: "char \<Rightarrow> bool" where
  "isspace c =
     (let n = (of_char c :: nat)
      in (9 \<le> n \<and> n \<le> 13) \<or> (28 \<le> n \<and> n \<le> 32) \<or> n = 133 \<or> n = 160)"

definition strip :: "string \<Rightarrow> string" where
  "strip s = rev (dropWhile isspace (rev (dropWhile isspace s)))"

definition lower_char :: "char \<Rightarrow> char" where
  "lower_char c =
     (let n = (of_char c :: nat)
      in if (65 \<le> n \<and> n \<le> 90) \<or> (192 \<le> n \<and> n \<le> 222 \<and> n \<noteq> 215)
         then char_of (n + 32) else c)"

definition lower :: "string \<Rightarrow> string" where
  "lower s = map lower_char s"

definition startswith :: "string \<Rightarrow> string \<Rightarrow> bool" where
  "startswith s p = (take (length p) s = p)"

definition endswith :: "string \<Rightarrow> string \<Rightarrow> bool" where
  "endswith s p = (length p \<le> length s \<and> drop (length s - length p) s = p)"

text \<open>\<open>contains s sub\<close> is Python's \<open>sub in s\<close>.\<close>

fun contains :: "string \<Rightarrow> string \<Rightarrow> bool" where
  "contains [] sub = (sub = [])"
| "contains (c # cs) sub = (startswith (c # cs) sub \<or> contains cs sub)"

section \<open>Exceptions\<close>

text \<open>
  The exception classes the modelled code raises or catches. \<open>ValidationError\<close> is
  pydantic's (a subclass of \<open>ValueError\<close>), carrying the error type of the failing field;
  \<open>Error\<close> stands for any other \<open>Exception\<close> of a library, with its message. The last four
  are the application's own classes (subclasses of \<open>BaseAppException\<close>).
\<close>

datatype exn =
    ValueError string
  | TypeError string
  | ValidationError string
  | JSONDecodeError
  | UnboundLocalError string
  | FileNotFoundError string
  | GroqError string
  | Error string
  | EmailNotFoundException string
  | DatabaseOperationException string "string option"
  | AudioTranscriptionException string "string option"
  | LLMException string "string option"

section \<open>json.loads\<close>

text \<open>
  A JSON document as \<open>json.loads\<close> returns it. A number keeps its lexeme (no claim reads
  its value); an object keeps its members in order, and \<open>dict_get\<close> reads the last
  binding of a key, as the Python dict built from the document does.
\<close>

datatype jvalue =
    JNull
  | JBool bool
  | JNumber string
  | JString string
  | JArray "jvalue list"
  | JObject "(string \<times> jvalue) list"

definition dict_get :: "(string \<times> jvalue) list \<Rightarrow> string \<Rightarrow> jvalue option" where
  "dict_get kvs k = map_of (rev kvs) k"

definition json_ws :: "char \<Rightarrow> bool" where
  "json_ws c = (c = CHR '' '' \<or> c = CHR 0x09 \<or> c = CHR 0x0A \<or> c = CHR 0x0D)"

definition skip_ws :: "string \<Rightarrow> string" where
  "skip_ws s = dropWhile json_ws s"

definition is_digit :: "char \<Rightarrow> bool" where
  "is_digit c = (let n = (of_char c :: nat) in 48 \<le> n \<and> n \<le> 57)"

definition hexval :: "char \<Rightarrow> nat option" where
  "hexval c =
     (let n = (of_char c :: nat)
      in if 48 \<le> n \<and> n \<le> 57 then Some (n - 48)
         else if 97 \<le> n \<and> n \<le> 102 then Some (n - 87)
         else if 65 \<le> n \<and> n \<le> 70 then Some (n - 55)
         else None)"

definition hex4 :: "char \<Rightarrow> char \<Rightarrow> char \<Rightarrow> char \<Rightarrow> nat option" where
  "hex4 a b c d =
     (case (hexval a, hexval b, hexval c, hexval d) of
        (Some w, Some x, Some y, Some z) \<Rightarrow> Some (((w * 16 + x) * 16 + y) * 16 + z)
      | _ \<Rightarrow> None)"

definition unescape :: "char \<Rightarrow> char option" where
  "unescape e =
     (if e = CHR 0x22 then Some (CHR 0x22)
      else if e = CHR 0x5C then Some (CHR 0x5C)
      else if e = CHR ''/'' then Some (CHR ''/'')
      else if e = CHR ''b'' then Some (CHR 0x08)
      else if e = CHR ''f'' then Some (CHR 0x0C)
      else if e = CHR ''n'' then Some (CHR 0x0A)
      else if e = CHR ''r'' then Some (CHR 0x0D)
      else if e = CHR ''t'' then Some (CHR 0x09)
      else None)"

text \<open>
  \<open>scan_u r\<close> decodes what follows \<open>\u\<close>: four hexadecimal digits, and a second
  \<open>\uXXXX\<close> when the two are a surrogate pair, which is one character. A code point above
  255 is kept as \<open>char_of\<close> of it: one character, so that lengths are Python's.
\<close>

definition scan_u :: "string \<Rightarrow> (char \<times> string) option" where
  "scan_u r =
     (if length r < 4 then None
      else
        (case hex4 (r ! 0) (r ! 1) (r ! 2) (r ! 3) of
           None \<Rightarrow> None
         | Some n \<Rightarrow>
             (let r' = drop 4 r
              in if 55296 \<le> n \<and> n \<le> 56319 \<and> 6 \<le> length r' \<and>
                    r' ! 0 = CHR 0x5C \<and> r' ! 1 = CHR ''u''
                 then
                   (case hex4 (r' ! 2) (r' ! 3) (r' ! 4) (r' ! 5) of
                      Some m \<Rightarrow>
                        if 56320 \<le> m \<and> m \<le> 57343
                        then Some (char_of (65536 + (n - 55296) * 1024 + (m - 56320)), drop 6 r')
                        else Some (char_of n, r')
                    | None \<Rightarrow> Some (char_of n, r'))
                 else Some (char_of n, r'))))"

lemma scan_u_shorter: "scan_u r = Some (x, r') \<Longrightarrow> length r' \<le> length r"
  by (auto simp: scan_u_def Let_def split: if_splits option.splits)

text \<open>
  \<open>scanstring s\<close> reads a string literal whose opening quote has been consumed: the
  decoded text and what follows the closing quote. As in the decoder's strict mode, a
  raw control character ends the parse with an error (\<open>None\<close>).
\<close>

function scanstring :: "string \<Rightarrow> (string \<times> string) option" where
  "scanstring [] = None"
| "scanstring (c # cs) =
     (if c = CHR 0x22 then Some ([], cs)
      else if c = CHR 0x5C then
        (case cs of
           [] \<Rightarrow> None
         | e # r \<Rightarrow>
             if e = CHR ''u'' then
               (case scan_u r of
                  None \<Rightarrow> None
                | Some (x, r') \<Rightarrow> map_option (apfst ((#) x)) (scanstring r'))
             else
               (case unescape e of
                  None \<Rightarrow> None
                | Some x \<Rightarrow> map_option (apfst ((#) x)) (scanstring r)))
      else if (of_char c :: nat) < 32 then None
      else map_option (apfst ((#) c)) (scanstring cs))"
  by pat_completeness auto
termination
  by (relation "measure length") (auto dest: scan_u_shorter)

definition scan_digits :: "string \<Rightarrow> (string \<times> string) option" where
  "scan_digits s =
     (let ds = takeWhile is_digit s in if ds = [] then None else Some (ds, dropWhile is_digit s))"

definition scan_int :: "string \<Rightarrow> (string \<times> string) option" where
  "scan_int s =
     (case s of
        [] \<Rightarrow> None
      | c # cs \<Rightarrow>
          if c = CHR ''0'' then Some (''0'', cs)
          else if is_digit c then scan_digits s
          else None)"

definition scan_frac :: "string \<Rightarrow> string \<times> string" where
  "scan_frac s =
     (case s of
        c # cs \<Rightarrow>
          if c = CHR ''.'' then
            (case scan_digits cs of Some (ds, r) \<Rightarrow> (c # ds, r) | None \<Rightarrow> ([], s))
          else ([], s)
      | [] \<Rightarrow> ([], s))"

definition scan_exp :: "string \<Rightarrow> string \<times> string" where
  "scan_exp s =
     (case s of
        c # cs \<Rightarrow>
          if c = CHR ''e'' \<or> c = CHR ''E'' then
            (case cs of
               d # ds \<Rightarrow>
                 if d = CHR ''+'' \<or> d = CHR ''-'' then
                   (case scan_digits ds of Some (xs, r) \<Rightarrow> (c # d # xs, r) | None \<Rightarrow> ([], s))
                 else (case scan_digits cs of Some (xs, r) \<Rightarrow> (c # xs, r) | None \<Rightarrow> ([], s))
             | [] \<Rightarrow> ([], s))
          else ([], s)
      | [] \<Rightarrow> ([], s))"

definition scan_number :: "string \<Rightarrow> (string \<times> string) option" where
  "scan_number s =
     (let (sign, r0) =
            (case s of c # cs \<Rightarrow> if c = CHR ''-'' then ([c], cs) else ([], s) | [] \<Rightarrow> ([], s))
      in case scan_int r0 of
           None \<Rightarrow> None
         | Some (i, r1) \<Rightarrow>
             (let (f, r2) = scan_frac r1; (e, r3) = scan_exp r2
              in Some (sign @ i @ f @ e, r3)))"

definition scan_literal :: "string \<Rightarrow> (jvalue \<times> string) option" where
  "scan_literal s =
     (if startswith s ''null'' then Some (JNull, drop 4 s)
      else if startswith s ''true'' then Some (JBool True, drop 4 s)
      else if startswith s ''false'' then Some (JBool False, drop 5 s)
      else
        (case scan_number s of
           Some (n, r) \<Rightarrow> Some (JNumber n, r)
         | None \<Rightarrow>
             if startswith s ''NaN'' then Some (JNumber ''NaN'', drop 3 s)
             else if startswith s ''Infinity'' then Some (JNumber ''Infinity'', drop 8 s)
             else if startswith s ''-Infinity'' then Some (JNumber ''-Infinity'', drop 9 s)
             else None))"

lemma length_skip_ws: "length (skip_ws s) \<le> length s"
  by (simp add: skip_ws_def length_dropWhile_le)

lemma skip_ws_Cons: "skip_ws s = d # ds \<Longrightarrow> Suc (length ds) \<le> length s"
  using length_skip_ws [of s] by simp

text \<open>
  The decoder proper: a value, the members of an object after its first key's quote
  has been found, the elements of an array. Each returns the value and the rest of the
  text. The two length tests of the loops hold whenever they are reached (a value
  consumes at least one character); they make the recursion well-founded on the length
  of the text. The interpreter's recursion limit is not modelled.
\<close>

function json_value :: "string \<Rightarrow> (jvalue \<times> string) option"
  and json_members :: "(string \<times> jvalue) list \<Rightarrow> string \<Rightarrow> (jvalue \<times> string) option"
  and json_elements :: "jvalue list \<Rightarrow> string \<Rightarrow> (jvalue \<times> string) option"
where
  "json_value s =
     (case s of
        [] \<Rightarrow> None
      | c # cs \<Rightarrow>
          if c = CHR 0x22 then map_option (apfst JString) (scanstring cs)
          else if c = CHR ''{'' then
            (case skip_ws cs of
               [] \<Rightarrow> None
             | d # ds \<Rightarrow> if d = CHR ''}'' then Some (JObject [], ds) else json_members [] (d # ds))
          else if c = CHR ''['' then
            (case skip_ws cs of
               [] \<Rightarrow> None
             | d # ds \<Rightarrow> if d = CHR '']'' then Some (JArray [], ds) else json_elements [] (d # ds))
          else scan_literal s)"
| "json_members acc s =
     (case s of
        [] \<Rightarrow> None
      | c # cs \<Rightarrow>
          if c \<noteq> CHR 0x22 then None
          else
            (case scanstring cs of
               None \<Rightarrow> None
             | Some (k, r1) \<Rightarrow>
                 (case skip_ws r1 of
                    [] \<Rightarrow> None
                  | c2 # r2 \<Rightarrow>
                      if c2 \<noteq> CHR '':'' then None
                      else if length (skip_ws r2) < length s then
                        (case json_value (skip_ws r2) of
                           None \<Rightarrow> None
                         | Some (v, r4) \<Rightarrow>
                             (case skip_ws r4 of
                                [] \<Rightarrow> None
                              | c5 # r5 \<Rightarrow>
                                  if c5 = CHR ''}'' then Some (JObject (acc @ [(k, v)]), r5)
                                  else if c5 = CHR '','' \<and> length (skip_ws r5) < length s
                                  then json_members (acc @ [(k, v)]) (skip_ws r5)
                                  else None))
                      else None)))"
| "json_elements acc s =
     (case json_value s of
        None \<Rightarrow> None
      | Some (v, r1) \<Rightarrow>
          (case skip_ws r1 of
             [] \<Rightarrow> None
           | c # r2 \<Rightarrow>
               if c = CHR '']'' then Some (JArray (acc @ [v]), r2)
               else if c = CHR '','' \<and> length (skip_ws r2) < length s
               then json_elements (acc @ [v]) (skip_ws r2)
               else None))"
  by pat_completeness auto
termination
  apply (relation "inv_image (measure id <*lex*> measure id)
      (\<lambda>x. case x of Inl s \<Rightarrow> (length s, 0::nat)
                     | Inr (Inl (a, s)) \<Rightarrow> (length s, 0)
                     | Inr (Inr (a, s)) \<Rightarrow> (length s, 1))")
       apply (auto simp: less_Suc_eq_le dest: skip_ws_Cons)
  done

text \<open>
  \<open>json.loads\<close>: one value between optional white space, then the end of the text;
  anything else raises \<open>JSONDecodeError\<close>.
\<close>

definition json_loads :: "string \<Rightarrow> exn + jvalue" where
  "json_loads s =
     (case json_value (skip_ws s) of
        None \<Rightarrow> Inl JSONDecodeError
      | Some (v, r) \<Rightarrow> if skip_ws r = [] then Inr v else Inl JSONDecodeError)"

section \<open>re\<close>

text \<open>
  The patterns of \<open>chain.py\<close> use literals, the classes \<open>.\<close> (under \<open>DOTALL\<close>), \<open>\s\<close>,
  \<open>\w\<close> and one character, greedy and lazy repetition of a class, optional groups, one
  capture group, alternatives inside a lookahead, and \<open>$\<close>. \<open>rx_match\<close> lists the
  positions at which a pattern can end when started at position \<open>i\<close>, in the order in
  which the backtracking matcher of \<open>re\<close> tries them, each with the span of group 1;
  \<open>re.search\<close> returns the first of them at the leftmost start that has one.
  \<open>ic\<close> is \<open>IGNORECASE\<close>, \<open>ml\<close> is \<open>MULTILINE\<close>.
\<close>

datatype cls = AnyChar | SpaceChar | WordChar | TheChar char

definition isword :: "char \<Rightarrow> bool" where
  "isword c =
     (let n = (of_char c :: nat)
      in (48 \<le> n \<and> n \<le> 57) \<or> (65 \<le> n \<and> n \<le> 90) \<or> n = 95 \<or> (97 \<le> n \<and> n \<le> 122) \<or>
         n = 170 \<or> n = 178 \<or> n = 179 \<or> n = 181 \<or> n = 185 \<or> n = 186 \<or>
         (188 \<le> n \<and> n \<le> 190) \<or> (192 \<le> n \<and> n \<le> 214) \<or> (216 \<le> n \<and> n \<le> 246) \<or> 248 \<le> n)"

fun cls_ok :: "cls \<Rightarrow> char \<Rightarrow> bool" where
  "cls_ok AnyChar c = True"
| "cls_ok SpaceChar c = isspace c"
| "cls_ok WordChar c = isword c"
| "cls_ok (TheChar x) c = (c = x)"

datatype rx =
    Lit string
  | Star cls
  | Lazy cls
  | Plus cls
  | Opt rx
  | Seq rx rx
  | Alt rx rx
  | Group rx
  | Ahead rx
  | Eos

type_synonym cap = "(nat \<times> nat) option"

definition lit_at :: "bool \<Rightarrow> string \<Rightarrow> nat \<Rightarrow> string \<Rightarrow> bool" where
  "lit_at ic s i l =
     (let t = take (length l) (drop i s)
      in if ic then lower t = lower l else t = l)"

definition run_length :: "cls \<Rightarrow> string \<Rightarrow> nat \<Rightarrow> nat" where
  "run_length k s i = length (takeWhile (cls_ok k) (drop i s))"

definition at_eos :: "bool \<Rightarrow> string \<Rightarrow> nat \<Rightarrow> bool" where
  "at_eos ml s i =
     (i = length s \<or>
      (i < length s \<and> s ! i = CHR 0x0A \<and> (ml \<or> Suc i = length s)))"

fun rx_match :: "bool \<Rightarrow> bool \<Rightarrow> string \<Rightarrow> rx \<Rightarrow> nat \<Rightarrow> cap \<Rightarrow> (nat \<times> cap) list" where
  "rx_match ic ml s (Lit l) i c = (if lit_at ic s i l then [(i + length l, c)] else [])"
| "rx_match ic ml s (Star k) i c = map (\<lambda>j. (i + j, c)) (rev [0..<Suc (run_length k s i)])"
| "rx_match ic ml s (Lazy k) i c = map (\<lambda>j. (i + j, c)) [0..<Suc (run_length k s i)]"
| "rx_match ic ml s (Plus k) i c = map (\<lambda>j. (i + j, c)) (rev [1..<Suc (run_length k s i)])"
| "rx_match ic ml s (Opt r) i c = rx_match ic ml s r i c @ [(i, c)]"
| "rx_match ic ml s (Seq a b) i c =
     concat (map (\<lambda>(j, c'). rx_match ic ml s b j c') (rx_match ic ml s a i c))"
| "rx_match ic ml s (Alt a b) i c = rx_match ic ml s a i c @ rx_match ic ml s b i c"
| "rx_match ic ml s (Group r) i c = map (\<lambda>(j, _). (j, Some (i, j))) (rx_match ic ml s r i c)"
| "rx_match ic ml s (Ahead r) i c = (if rx_match ic ml s r i c = [] then [] else [(i, c)])"
| "rx_match ic ml s Eos i c = (if at_eos ml s i then [(i, c)] else [])"

fun first_match :: "bool \<Rightarrow> bool \<Rightarrow> string \<Rightarrow> rx \<Rightarrow> nat list \<Rightarrow> (nat \<times> nat \<times> cap) option" where
  "first_match ic ml s r [] = None"
| "first_match ic ml s r (i # is) =
     (case rx_match ic ml s r i None of
        (j, c) # _ \<Rightarrow> Some (i, j, c)
      | [] \<Rightarrow> first_match ic ml s r is)"

definition re_search :: "bool \<Rightarrow> bool \<Rightarrow> rx \<Rightarrow> string \<Rightarrow> (nat \<times> nat \<times> cap) option" where
  "re_search ic ml r s = first_match ic ml s r [0..<Suc (length s)]"

definition group1 :: "string \<Rightarrow> nat \<times> nat \<times> cap \<Rightarrow> string" where
  "group1 s m = (case snd (snd m) of Some (a, b) \<Rightarrow> take (b - a) (drop a s) | None \<Rightarrow> [])"

text \<open>
  \<open>re.sub(pattern, "", s)\<close>: scanning from the left, every match is deleted. (A match of
  no character deletes nothing and the scan moves on by one.)
\<close>

function sub_from :: "bool \<Rightarrow> bool \<Rightarrow> rx \<Rightarrow> string \<Rightarrow> nat \<Rightarrow> string" where
  "sub_from ic ml r s i =
     (if length s \<le> i then []
      else
        (case rx_match ic ml s r i None of
           (j, c) # _ \<Rightarrow> if i < j then sub_from ic ml r s j else s ! i # sub_from ic ml r s (Suc i)
         | [] \<Rightarrow> s ! i # sub_from ic ml r s (Suc i)))"
  by pat_completeness auto
termination
  by (relation "measure (\<lambda>(ic, ml, r, s, i). length s - i)") auto

definition re_sub_empty :: "bool \<Rightarrow> bool \<Rightarrow> rx \<Rightarrow> string \<Rightarrow> string" where
  "re_sub_empty ic ml r s = sub_from ic ml r s 0"

text \<open>
  The five patterns of \<open>LlmRunnable.invoke\<close>, in the order of the source:
  \<^verbatim>\<open>```(?:json)?\s*(\{.*?\})\s*```\<close>,
  \<^verbatim>\<open>\*\*explanation:\*\*\s*(.*?)(?=\*\*code:\*\*|\*\*Code:\*\*|$)\<close>,
  \<^verbatim>\<open>\*+$\<close>,
  \<^verbatim>\<open>\*\*code:\*\*\s*(?:.*?)?```(?:\w+)?\s*(.*?)```\<close> and
  \<^verbatim>\<open>\*\*code:\*\*\s*(.*?)(?=\n\n|\n\*|$)\<close>.
\<close>

definition fenced_json_pattern :: rx where
  "fenced_json_pattern =
     Seq (Lit ''```'') (Seq (Opt (Lit ''json'')) (Seq (Star SpaceChar)
       (Seq (Group (Seq (Lit ''{'') (Seq (Lazy AnyChar) (Lit ''}''))))
         (Seq (Star SpaceChar) (Lit ''```'')))))"

definition explanation_pattern :: rx where
  "explanation_pattern =
     Seq (Lit ''**explanation:**'') (Seq (Star SpaceChar) (Seq (Group (Lazy AnyChar))
       (Ahead (Alt (Lit ''**code:**'') (Alt (Lit ''**Code:**'') Eos)))))"

definition trailing_stars_pattern :: rx where
  "trailing_stars_pattern = Seq (Plus (TheChar CHR ''*'')) Eos"

definition code_block_pattern :: rx where
  "code_block_pattern =
     Seq (Lit ''**code:**'') (Seq (Star SpaceChar) (Seq (Opt (Lazy AnyChar)) (Seq (Lit ''```'')
       (Seq (Opt (Plus WordChar)) (Seq (Star SpaceChar) (Seq (Group (Lazy AnyChar)) (Lit ''```'')))))))"

definition code_text_pattern :: rx where
  "code_text_pattern =
     Seq (Lit ''**code:**'') (Seq (Star SpaceChar) (Seq (Group (Lazy AnyChar))
       (Ahead (Alt (Lit [CHR 0x0A, CHR 0x0A]) (Alt (Lit [CHR 0x0A, CHR ''*'']) Eos)))))"

section \<open>ChatResponseModel\<close>

text \<open>
  \<open>WorkFlow/ChatModel.py\<close>: \<open>explanation\<close> is a required string with \<open>min_length=10\<close>,
  \<open>code\<close> a string that defaults to the empty string. \<open>ChatResponseModel_init\<close> is the
  constructor on its keyword arguments: a missing or non-string \<open>explanation\<close>, one of
  fewer than 10 characters, or a non-string \<open>code\<close> raise pydantic's \<open>ValidationError\<close>;
  other keys are ignored.
\<close>

record ChatResponseModel =
  explanation :: string
  code :: string

definition ChatResponseModel_init :: "(string \<times> jvalue) list \<Rightarrow> exn + ChatResponseModel" where
  "ChatResponseModel_init data =
     (case dict_get data ''explanation'' of
        None \<Rightarrow> Inl (ValidationError ''missing'')
      | Some (JString e) \<Rightarrow>
          if length e < 10 then Inl (ValidationError ''string_too_short'')
          else
            (case dict_get data ''code'' of
               None \<Rightarrow> Inr \<lparr>explanation = e, code = []\<rparr>
             | Some (JString c) \<Rightarrow> Inr \<lparr>explanation = e, code = c\<rparr>
             | Some _ \<Rightarrow> Inl (ValidationError ''string_type''))
      | Some _ \<Rightarrow> Inl (ValidationError ''string_type''))"

text \<open>\<open>ChatResponseModel(explanation=e, code=c)\<close> and \<open>ChatResponseModel(**parsed_data)\<close>.\<close>

definition ChatResponseModel_new :: "string \<Rightarrow> string \<Rightarrow> exn + ChatResponseModel" where
  "ChatResponseModel_new e c =
     ChatResponseModel_init [(''explanation'', JString e), (''code'', JString c)]"

definition ChatResponseModel_kwargs :: "jvalue \<Rightarrow> exn + ChatResponseModel" where
  "ChatResponseModel_kwargs parsed_data =
     (case parsed_data of
        JObject kvs \<Rightarrow> ChatResponseModel_init kvs
      | _ \<Rightarrow> Inl (TypeError ''argument after ** must be a mapping''))"

section \<open>LlmRunnable.invoke: from the completion text to the reply\<close>

text \<open>
  Lines 111 to 199 of \<open>WorkFlow/chain.py\<close>. Each strategy of the \<open>try\<close> block either
  returns a reply, raises (an exception that its own handler does not catch), or falls
  through to the next one.
\<close>

datatype 'a stage = Returned 'a | Raised exn | FellThrough

text \<open>Lines 123 to 131: only \<open>json.JSONDecodeError\<close> is caught here.\<close>

definition pure_json_stage :: "string \<Rightarrow> ChatResponseModel stage" where
  "pure_json_stage response_clean =
     (if startswith response_clean ''{'' \<and> endswith response_clean ''}'' then
        (case json_loads response_clean of
           Inl JSONDecodeError \<Rightarrow> FellThrough
         | Inl e \<Rightarrow> Raised e
         | Inr parsed_data \<Rightarrow>
             (case ChatResponseModel_kwargs parsed_data of
                Inl e \<Rightarrow> Raised e
              | Inr r \<Rightarrow> Returned r))
      else FellThrough)"

text \<open>Lines 134 to 144.\<close>

definition fenced_json_stage :: "string \<Rightarrow> ChatResponseModel stage" where
  "fenced_json_stage response_clean =
     (if contains response_clean ''```json'' \<or> contains response_clean ''```'' then
        (case re_search False False fenced_json_pattern response_clean of
           None \<Rightarrow> FellThrough
         | Some json_match \<Rightarrow>
             (case json_loads (group1 response_clean json_match) of
                Inl JSONDecodeError \<Rightarrow> FellThrough
              | Inl e \<Rightarrow> Raised e
              | Inr parsed_data \<Rightarrow>
                  (case ChatResponseModel_kwargs parsed_data of
                     Inl e \<Rightarrow> Raised e
                   | Inr r \<Rightarrow> Returned r)))
      else FellThrough)"

text \<open>Lines 147 to 178: the handler of this block catches every \<open>Exception\<close>.\<close>

definition markdown_explanation :: "string \<Rightarrow> string" where
  "markdown_explanation response_clean =
     (case re_search True False explanation_pattern response_clean of
        None \<Rightarrow> []
      | Some explanation_match \<Rightarrow>
          strip (re_sub_empty False True trailing_stars_pattern
                   (strip (group1 response_clean explanation_match))))"

definition markdown_code :: "string \<Rightarrow> string" where
  "markdown_code response_clean =
     (case re_search True False code_block_pattern response_clean of
        Some code_block_match \<Rightarrow> strip (group1 response_clean code_block_match)
      | None \<Rightarrow>
          (case re_search True False code_text_pattern response_clean of
             Some code_text_match \<Rightarrow> strip (group1 response_clean code_text_match)
           | None \<Rightarrow> []))"

definition markdown_stage :: "string \<Rightarrow> ChatResponseModel stage" where
  "markdown_stage response_clean =
     (if contains (lower response_clean) ''**explanation:'' \<or>
         contains (lower response_clean) ''**code:''
      then
        (let explanation = markdown_explanation response_clean;
             code = markdown_code response_clean
         in if explanation \<noteq> [] then
              (case ChatResponseModel_new explanation code of
                 Inl markdown_error \<Rightarrow> FellThrough
               | Inr r \<Rightarrow> Returned r)
            else FellThrough)
      else FellThrough)"

text \<open>
  Lines 181 to 186. \<open>PydanticOutputParser.parse\<close> belongs to langchain: it looks for a
  JSON object in the text and validates it against the model, and raises
  \<open>OutputParserException\<close> when it finds none or the validation fails. The search for the
  object is the parameter \<open>parse_json\<close>; the validation is the model's.
\<close>

definition PydanticOutputParser_parse ::
  "(string \<Rightarrow> jvalue option) \<Rightarrow> string \<Rightarrow> exn + ChatResponseModel" where
  "PydanticOutputParser_parse parse_json text =
     (case parse_json text of
        None \<Rightarrow> Inl (Error ''OutputParserException'')
      | Some (JObject kvs) \<Rightarrow>
          (case ChatResponseModel_init kvs of
             Inl e \<Rightarrow> Inl (Error ''OutputParserException'')
           | Inr r \<Rightarrow> Inr r)
      | Some _ \<Rightarrow> Inl (Error ''OutputParserException''))"

definition parser_stage :: "(string \<Rightarrow> jvalue option) \<Rightarrow> string \<Rightarrow> ChatResponseModel stage" where
  "parser_stage parse_json response_text =
     (case PydanticOutputParser_parse parse_json response_text of
        Inl parse_error \<Rightarrow> FellThrough
      | Inr parsed \<Rightarrow> Returned parsed)"

text \<open>The body of the outer \<open>try\<close> (lines 121 to 192), ending in the fallback of line 192.\<close>

definition parse_structured :: "(string \<Rightarrow> jvalue option) \<Rightarrow> string \<Rightarrow> exn + ChatResponseModel" where
  "parse_structured parse_json response_text =
     (let response_clean = strip response_text
      in case pure_json_stage response_clean of
           Returned r \<Rightarrow> Inr r
         | Raised e \<Rightarrow> Inl e
         | FellThrough \<Rightarrow>
             (case fenced_json_stage response_clean of
                Returned r \<Rightarrow> Inr r
              | Raised e \<Rightarrow> Inl e
              | FellThrough \<Rightarrow>
                  (case markdown_stage response_clean of
                     Returned r \<Rightarrow> Inr r
                   | Raised e \<Rightarrow> Inl e
                   | FellThrough \<Rightarrow>
                       (case parser_stage parse_json response_text of
                          Returned r \<Rightarrow> Inr r
                        | Raised e \<Rightarrow> Inl e
                        | FellThrough \<Rightarrow> ChatResponseModel_new response_text []))))"

text \<open>
  Lines 111 to 199: the guard for an empty completion, the \<open>try\<close> block, and the handler
  of line 193, which builds the fallback reply again, outside any handler.
\<close>

definition parse_response :: "(string \<Rightarrow> jvalue option) \<Rightarrow> string \<Rightarrow> exn + ChatResponseModel" where
  "parse_response parse_json response_text =
     (if response_text = [] then ChatResponseModel_new ''No response received from the LLM.'' []
      else
        (case parse_structured parse_json response_text of
           Inr r \<Rightarrow> Inr r
         | Inl e \<Rightarrow> ChatResponseModel_new response_text []))"

section \<open>Exceptions as the handlers see them\<close>

text \<open>
  \<open>str_exn e\<close> is \<open>str(e)\<close>: the message, which for the application's classes is the
  one their constructors build (\<open>utils/exceptions.py\<close>). \<open>is_ValueError\<close> and
  \<open>is_BaseAppException\<close> are the two \<open>isinstance\<close> tests of the handlers.
\<close>

fun str_exn :: "exn \<Rightarrow> string" where
  "str_exn (ValueError m) = m"
| "str_exn (TypeError m) = m"
| "str_exn (ValidationError m) = m"
| "str_exn JSONDecodeError = ''JSONDecodeError''"
| "str_exn (UnboundLocalError m) = m"
| "str_exn (FileNotFoundError m) = m"
| "str_exn (GroqError m) = m"
| "str_exn (Error m) = m"
| "str_exn (EmailNotFoundException email) =
     ''Email address '' @ [CHR 0x27] @ email @ [CHR 0x27] @ '' not found in the database.''"
| "str_exn (DatabaseOperationException operation details) =
     ''Database operation '' @ [CHR 0x27] @ operation @ [CHR 0x27] @ '' failed.'' @
     (case details of
        Some d \<Rightarrow> if d \<noteq> [] then '' Details: '' @ d else []
      | None \<Rightarrow> [])"
| "str_exn (AudioTranscriptionException m details) = m"
| "str_exn (LLMException m details) = m"

fun is_ValueError :: "exn \<Rightarrow> bool" where
  "is_ValueError (ValueError m) = True"
| "is_ValueError (ValidationError m) = True"
| "is_ValueError JSONDecodeError = True"
| "is_ValueError e = False"

fun is_BaseAppException :: "exn \<Rightarrow> bool" where
  "is_BaseAppException (EmailNotFoundException email) = True"
| "is_BaseAppException (DatabaseOperationException operation details) = True"
| "is_BaseAppException (AudioTranscriptionException m details) = True"
| "is_BaseAppException (LLMException m details) = True"
| "is_BaseAppException e = False"

section \<open>The store, the file system and the providers\<close>

text \<open>
  The tables \<open>users\<close> and \<open>chat_memory\<close> (\<open>Schema/User.py\<close>, \<open>Schema/ChatMemory.py\<close>),
  the files under their paths, and one counter per external collaborator (the store, the
  transcription provider, the model provider) that counts the calls made to it.
\<close>

record User =
  u_id :: string
  u_email :: string

record ChatMemory =
  m_id :: string
  user_id :: string
  role :: string
  message :: string
  resume_details :: "string option"
  created_at :: nat

datatype node = File string | Directory

record world =
  users :: "User list"
  chat_memory :: "ChatMemory list"
  files :: "string \<Rightarrow> node option"
  store_calls :: nat
  transcription_calls :: nat
  model_calls :: nat

text \<open>
  The uploaded audio: its name and what reading it gives (the bytes, or an exception).
  A completion of the provider, as \<open>LlmRunnable.invoke\<close> inspects it: the contents of its
  choices when it has the attribute, its \<open>text\<close> attribute when it has one, and its \<open>str\<close>.
\<close>

record UploadFile =
  filename :: "string option"
  file_read :: "exn + string"

record completion =
  choices :: "string option list option"
  text_attr :: "string option"
  str_repr :: string

record 'f completion_params =
  cp_model :: string
  cp_content :: string
  cp_temperature :: 'f
  cp_top_p :: 'f
  cp_stream :: bool
  cp_reasoning :: bool

text \<open>
  What the libraries and services outside the repository answer. \<open>email_str\<close> is pydantic's
  \<open>EmailStr\<close> (the normalised address, or \<open>None\<close> when it rejects the text);
  \<open>store_fault k\<close> is the exception the store raises at its \<open>k\<close>-th call, if any;
  \<open>named_temporary_file\<close> is the path \<open>tempfile\<close> creates for a suffix (or its exception);
  \<open>unlink_fault\<close> is the exception \<open>os.unlink\<close> raises on a path, if any;
  the two \<open>create\<close> functions are the Groq client's; the two templates are the texts of
  \<open>Prompts/PromptLibrary.py\<close> around their placeholders; \<open>parse_json\<close> is the JSON search
  of langchain's output parser. The sampling parameters are passed through unread, so
  their type \<open>'f\<close> is left open.
\<close>

record 'f collab =
  email_str :: "string \<Rightarrow> string option"
  store_fault :: "nat \<Rightarrow> exn option"
  uuid4 :: "nat \<Rightarrow> string"
  now :: nat
  path_suffix :: "string \<Rightarrow> string"
  named_temporary_file :: "string \<Rightarrow> exn + string"
  unlink_fault :: "string \<Rightarrow> exn option"
  groq_api_key :: "string option"
  audio_transcriptions_create :: "string \<Rightarrow> string \<Rightarrow> exn + string option"
  chat_completions_create :: "'f completion_params \<Rightarrow> exn + completion"
  system_template :: "string \<times> string"
  invoke_template :: "string \<times> string \<times> string"
  parse_json :: "string \<Rightarrow> jvalue option"

text \<open>
  Every call to the store is counted and may raise. \<open>query_user\<close> is
  \<open>db.query(User).filter(User.email == e).first()\<close>; \<open>order_by_created_at_desc\<close> is
  \<open>order_by(ChatMemory.created_at.desc())\<close> (rows of equal time in the reverse of their
  stored order).
\<close>

definition store_call :: "'f collab \<Rightarrow> world \<Rightarrow> exn option \<times> world" where
  "store_call c w = (store_fault c (store_calls w), w\<lparr>store_calls := Suc (store_calls w)\<rparr>)"

definition query_user :: "world \<Rightarrow> string \<Rightarrow> User option" where
  "query_user w e = find (\<lambda>u. u_email u = e) (users w)"

definition order_by_created_at_desc :: "ChatMemory list \<Rightarrow> ChatMemory list" where
  "order_by_created_at_desc ms = rev (sort_key created_at ms)"

section \<open>utils/TranscribeAudio.py\<close>

text \<open>
  \<open>transcribe_request\<close> is the body of the \<open>try\<close> of \<open>TranscribeAudio\<close> (lines 98 to 131),
  \<open>transcribe_handlers\<close> its three \<open>except\<close> clauses (lines 133 to 153), and
  \<open>TranscribeAudio\<close> the function: the three checks of lines 81 to 95 come before the
  \<open>try\<close>, so what they raise is not wrapped.
\<close>

definition transcribe_request :: "'f collab \<Rightarrow> string \<Rightarrow> string \<Rightarrow> world \<Rightarrow> (exn + string) \<times> world" where
  "transcribe_request c audio_path audio_data w =
     (if groq_api_key c = None \<or> groq_api_key c = Some [] then
        (Inl (AudioTranscriptionException
               ''GROQ_API_KEY environment variable is not set. Please set it in your .env file or environment variables.''
               None), w)
      else
        (let w' = w\<lparr>transcription_calls := Suc (transcription_calls w)\<rparr>
         in case audio_transcriptions_create c audio_path audio_data of
              Inl e \<Rightarrow> (Inl e, w')
            | Inr None \<Rightarrow>
                (Inl (AudioTranscriptionException ''Transcription returned empty result'' None), w')
            | Inr (Some t) \<Rightarrow>
                if t = [] then
                  (Inl (AudioTranscriptionException ''Transcription returned empty result'' None), w')
                else (Inr (strip t), w')))"

fun transcribe_handlers :: "exn \<Rightarrow> exn" where
  "transcribe_handlers (FileNotFoundError m) = FileNotFoundError m"
| "transcribe_handlers (GroqError m) =
     AudioTranscriptionException ''Failed to transcribe audio using Groq API'' (Some m)"
| "transcribe_handlers e =
     AudioTranscriptionException ''An unexpected error occurred during audio transcription''
       (Some (str_exn e))"

definition TranscribeAudio :: "'f collab \<Rightarrow> string \<Rightarrow> world \<Rightarrow> (exn + string) \<times> world" where
  "TranscribeAudio c audio_path w =
     (case files w audio_path of
        None \<Rightarrow> (Inl (FileNotFoundError (''Audio file not found: '' @ audio_path)), w)
      | Some Directory \<Rightarrow> (Inl (ValueError (''Path is not a file: '' @ audio_path)), w)
      | Some (File audio_data) \<Rightarrow>
          if length audio_data = 0 then
            (Inl (AudioTranscriptionException ''Audio file is empty'' None), w)
          else
            (case transcribe_request c audio_path audio_data w of
               (Inl e, w') \<Rightarrow> (Inl (transcribe_handlers e), w')
             | (Inr transcribed_text, w') \<Rightarrow> (Inr transcribed_text, w')))"

section \<open>utils/llm.py and LlmRunnable.invoke\<close>

text \<open>
  \<open>Llm\<close> (lines 66 to 169 of \<open>utils/llm.py\<close>) with its two handlers, the reading of the
  completion (lines 103 to 109 of \<open>chain.py\<close>), \<open>LlmRunnable.invoke\<close>, and \<open>GetChain\<close>
  followed by \<open>chain.invoke\<close>.
\<close>

fun llm_handlers :: "exn \<Rightarrow> exn" where
  "llm_handlers (GroqError m) = LLMException ''Failed to invoke LLM using Groq API'' (Some m)"
| "llm_handlers e =
     LLMException ''An unexpected error occurred during LLM invocation'' (Some (str_exn e))"

definition Llm :: "'f collab \<Rightarrow> string \<Rightarrow> string \<Rightarrow> 'f \<Rightarrow> 'f \<Rightarrow> bool \<Rightarrow> world \<Rightarrow> (exn + completion) \<times> world" where
  "Llm c system_prompt model temperature top_p stream w =
     (if groq_api_key c = None \<or> groq_api_key c = Some [] then
        (Inl (llm_handlers (LLMException
               ''GROQ_API_KEY environment variable is not set. Please set it in your .env file or environment variables.''
               None)), w)
      else
        (let completion_params =
               \<lparr>cp_model = model, cp_content = system_prompt, cp_temperature = temperature,
                cp_top_p = top_p, cp_stream = stream,
                cp_reasoning = (contains (lower model) ''gpt-oss'' \<or> contains (lower model) ''deepseek'')\<rparr>;
             w' = w\<lparr>model_calls := Suc (model_calls w)\<rparr>
         in case chat_completions_create c completion_params of
              Inl e \<Rightarrow> (Inl (llm_handlers e), w')
            | Inr completion \<Rightarrow> (Inr completion, w')))"

definition response_text_of :: "completion \<Rightarrow> string" where
  "response_text_of completion =
     (case choices completion of
        Some (first # _) \<Rightarrow> (case first of Some content \<Rightarrow> content | None \<Rightarrow> [])
      | _ \<Rightarrow> (case text_attr completion of Some t \<Rightarrow> t | None \<Rightarrow> str_repr completion))"

definition LlmRunnable_invoke ::
  "'f collab \<Rightarrow> string \<Rightarrow> string \<Rightarrow> string \<Rightarrow> 'f \<Rightarrow> 'f \<Rightarrow> world \<Rightarrow> (exn + ChatResponseModel) \<times> world" where
  "LlmRunnable_invoke c system_prompt_text user_prompt_text model temperature top_p w =
     (let combined_prompt = system_prompt_text @ [CHR 0x0A, CHR 0x0A] @ user_prompt_text
      in case Llm c combined_prompt model temperature top_p False w of
           (Inl e, w') \<Rightarrow> (Inl e, w')
         | (Inr completion, w') \<Rightarrow>
             (parse_response (parse_json c) (response_text_of completion), w'))"

fun join :: "string \<Rightarrow> string list \<Rightarrow> string" where
  "join sep [] = []"
| "join sep [x] = x"
| "join sep (x # y # ys) = x @ sep @ join sep (y # ys)"

definition GetChain_invoke ::
  "'f collab \<Rightarrow> string \<Rightarrow> string \<Rightarrow> string list \<Rightarrow> string \<Rightarrow> 'f \<Rightarrow> 'f \<Rightarrow> world \<Rightarrow> (exn + ChatResponseModel) \<times> world" where
  "GetChain_invoke c ResumeDetails input history model temperature top_p w =
     (let history_str = (if history \<noteq> [] then join [CHR 0x0A] history else ''No previous conversation.'');
          system_prompt_text = fst (system_template c) @ ResumeDetails @ snd (system_template c);
          user_prompt_text =
            (case invoke_template c of
               (before_history, before_input, after_input) \<Rightarrow>
                 before_history @ history_str @ before_input @ input @ after_input)
      in LlmRunnable_invoke c system_prompt_text user_prompt_text model temperature top_p w)"

section \<open>Services/ChatService\<close>

text \<open>\<open>GetResumeDetails\<close> (\<open>GetResumeDetails.py\<close>): the rows and the user's id.\<close>

fun resume_handlers :: "exn \<Rightarrow> exn" where
  "resume_handlers (EmailNotFoundException email) = EmailNotFoundException email"
| "resume_handlers e = DatabaseOperationException ''resume_retrieval'' (Some (str_exn e))"

definition GetResumeDetails ::
  "'f collab \<Rightarrow> string \<Rightarrow> world \<Rightarrow> (exn + ChatMemory list \<times> string) \<times> world" where
  "GetResumeDetails c email w =
     (case store_call c w of
        (Some e, w1) \<Rightarrow> (Inl (resume_handlers e), w1)
      | (None, w1) \<Rightarrow>
          (case query_user w1 (lower email) of
             None \<Rightarrow> (Inl (resume_handlers (EmailNotFoundException email)), w1)
           | Some db_user \<Rightarrow>
               (case store_call c w1 of
                  (Some e, w2) \<Rightarrow> (Inl (resume_handlers e), w2)
                | (None, w2) \<Rightarrow>
                    (Inr (order_by_created_at_desc
                            (filter (\<lambda>m. user_id m = u_id db_user \<and> resume_details m \<noteq> None)
                               (chat_memory w2)),
                          u_id db_user), w2))))"

text \<open>
  The audio block of \<open>InvokeChat\<close> (lines 116 to 150). \<open>cleanup_temp\<close> is its \<open>finally\<close>
  clause: the file is unlinked when the path is set and exists, and an exception of
  \<open>os.unlink\<close> is caught and logged. \<open>audio_handler\<close> is its \<open>except\<close> clause.
\<close>

definition cleanup_temp :: "'f collab \<Rightarrow> string option \<Rightarrow> world \<Rightarrow> world" where
  "cleanup_temp c temp_audio_path w =
     (case temp_audio_path of
        None \<Rightarrow> w
      | Some p \<Rightarrow>
          if p \<noteq> [] \<and> files w p \<noteq> None then
            (if files w p = Some Directory \<or> unlink_fault c p \<noteq> None then w
             else w\<lparr>files := (files w)(p := None)\<rparr>)
          else w)"

definition audio_handler :: "exn \<Rightarrow> exn" where
  "audio_handler e = DatabaseOperationException ''audio_processing'' (Some (str_exn e))"

definition upload_suffix :: "'f collab \<Rightarrow> UploadFile \<Rightarrow> string" where
  "upload_suffix c audio =
     (case filename audio of
        Some f \<Rightarrow> if f \<noteq> [] then path_suffix c f else ''.wav''
      | None \<Rightarrow> ''.wav'')"

definition process_audio :: "'f collab \<Rightarrow> UploadFile \<Rightarrow> world \<Rightarrow> (exn + string) \<times> world" where
  "process_audio c audio w =
     (case named_temporary_file c (upload_suffix c audio) of
        Inl e \<Rightarrow> (Inl (audio_handler e), cleanup_temp c None w)
      | Inr temp_audio_path \<Rightarrow>
          (case file_read audio of
             Inl e \<Rightarrow>
               (Inl (audio_handler e),
                cleanup_temp c (Some temp_audio_path)
                  (w\<lparr>files := (files w)(temp_audio_path \<mapsto> File [])\<rparr>))
           | Inr content \<Rightarrow>
               (case TranscribeAudio c temp_audio_path
                       (w\<lparr>files := (files w)(temp_audio_path \<mapsto> File content)\<rparr>) of
                  (Inl e, w') \<Rightarrow> (Inl (audio_handler e), cleanup_temp c (Some temp_audio_path) w')
                | (Inr transcribed_text, w') \<Rightarrow>
                    (Inr transcribed_text, cleanup_temp c (Some temp_audio_path) w'))))"

text \<open>Lines 153 to 164.\<close>

definition combine_input :: "string option \<Rightarrow> string \<Rightarrow> exn + string" where
  "combine_input text transcribed_text =
     (let input_text0 = (case text of Some t \<Rightarrow> if t \<noteq> [] then strip t else [] | None \<Rightarrow> []);
          input_text =
            (if transcribed_text \<noteq> [] then
               (if input_text0 \<noteq> [] then input_text0 @ [CHR 0x0A, CHR 0x0A] @ strip transcribed_text
                else strip transcribed_text)
             else input_text0)
      in if input_text = [] then Inl (ValueError ''No text input available after processing audio'')
         else Inr input_text)"

text \<open>
  Lines 170 to 195: the query for the ten most recent chat rows of the user, the loop
  over them in reverse, and the \<open>try\<close> around both, whose handler only logs. When the
  first query raises, \<open>db_user\<close> is never assigned: it stays \<open>Unbound\<close>.
\<close>

definition recent_chat_messages :: "ChatMemory list \<Rightarrow> string \<Rightarrow> ChatMemory list" where
  "recent_chat_messages rows uid =
     take 10 (order_by_created_at_desc
                (filter (\<lambda>m. user_id m = uid \<and> resume_details m = None) rows))"

definition history_of :: "ChatMemory list \<Rightarrow> string list" where
  "history_of chat_messages = map message (filter (\<lambda>msg. message msg \<noteq> []) (rev chat_messages))"

datatype 'a binding = Unbound | Bound 'a

definition fetch_history ::
  "'f collab \<Rightarrow> string \<Rightarrow> world \<Rightarrow> string list \<times> User option binding \<times> world" where
  "fetch_history c email w =
     (case store_call c w of
        (Some e, w1) \<Rightarrow> ([], Unbound, w1)
      | (None, w1) \<Rightarrow>
          (case query_user w1 (lower email) of
             None \<Rightarrow> ([], Bound None, w1)
           | Some db_user \<Rightarrow>
               (case store_call c w1 of
                  (Some e, w2) \<Rightarrow> ([], Bound (Some db_user), w2)
                | (None, w2) \<Rightarrow>
                    (history_of (recent_chat_messages (chat_memory w2) (u_id db_user)),
                     Bound (Some db_user), w2))))"

text \<open>
  Lines 214 to 242: the two new rows and the commit, inside a \<open>try\<close> whose handler logs
  and rolls back. Reading the unassigned \<open>db_user\<close> raises inside this \<open>try\<close> too.
\<close>

definition assistant_text :: "ChatResponseModel \<Rightarrow> string" where
  "assistant_text result =
     (if code result \<noteq> [] then
        ''Explanation: '' @ explanation result @ [CHR 0x0A, CHR 0x0A] @ ''Code: '' @ code result
      else explanation result)"

definition save_conversation ::
  "'f collab \<Rightarrow> User option binding \<Rightarrow> string \<Rightarrow> ChatResponseModel \<Rightarrow> world \<Rightarrow> world" where
  "save_conversation c db_user input_text result w =
     (case db_user of
        Unbound \<Rightarrow> w
      | Bound None \<Rightarrow> w
      | Bound (Some u) \<Rightarrow>
          (case store_call c w of
             (Some e, w1) \<Rightarrow> w1
           | (None, w1) \<Rightarrow>
               w1\<lparr>chat_memory := chat_memory w1 @
                    [\<lparr>m_id = uuid4 c 0, user_id = u_id u, role = ''user'', message = input_text,
                      resume_details = None, created_at = now c\<rparr>,
                     \<lparr>m_id = uuid4 c 1, user_id = u_id u, role = ''assistant'',
                      message = assistant_text result, resume_details = None, created_at = now c\<rparr>]\<rparr>))"

text \<open>
  \<open>chat_body\<close> is the \<open>try\<close> block of \<open>InvokeChat\<close> (lines 95 to 253), \<open>chat_handlers\<close> its
  \<open>except\<close> clauses (lines 255 to 266), and \<open>InvokeChat\<close> the function, whose first
  statement (line 91) is outside the \<open>try\<close>. \<open>text\<close> is falsy when it is \<open>None\<close> or empty;
  an \<open>UploadFile\<close> is always truthy.
\<close>

record response_data = ChatResponseModel +
  response_user_id :: string

definition chat_body ::
  "'f collab \<Rightarrow> string option \<Rightarrow> UploadFile option \<Rightarrow> string \<Rightarrow> string \<Rightarrow> 'f \<Rightarrow> 'f \<Rightarrow> world \<Rightarrow>
     (exn + response_data) \<times> world" where
  "chat_body c text audio email model temperature top_p w =
     (case email_str c email of
        None \<Rightarrow> (Inl (ValidationError ''value_error''), w)
      | Some user_request_email \<Rightarrow>
          (case GetResumeDetails c user_request_email w of
             (Inl e, w1) \<Rightarrow> (Inl e, w1)
           | (Inr (resume_details_list, uid), w1) \<Rightarrow>
               (let resume_details_text =
                      (case resume_details_list of
                         latest_resume # _ \<Rightarrow>
                           (case resume_details latest_resume of Some d \<Rightarrow> d | None \<Rightarrow> [])
                       | [] \<Rightarrow> ''No resume details available.'')
                in case (case audio of
                           None \<Rightarrow> (Inr [], w1)
                         | Some a \<Rightarrow> process_audio c a w1) of
                     (Inl e, w2) \<Rightarrow> (Inl e, w2)
                   | (Inr transcribed_text, w2) \<Rightarrow>
                       (case combine_input text transcribed_text of
                          Inl e \<Rightarrow> (Inl e, w2)
                        | Inr input_text \<Rightarrow>
                            (case fetch_history c email w2 of
                               (history_messages, db_user, w3) \<Rightarrow>
                                 (case GetChain_invoke c resume_details_text input_text
                                         history_messages model temperature top_p w3 of
                                    (Inl e, w4) \<Rightarrow> (Inl e, w4)
                                  | (Inr result, w4) \<Rightarrow>
                                      (Inr \<lparr>explanation = explanation result, code = code result,
                                            response_user_id = uid\<rparr>,
                                       save_conversation c db_user input_text result w4)))))))"

definition chat_handlers :: "exn \<Rightarrow> exn" where
  "chat_handlers e =
     (if is_ValueError e \<or> is_BaseAppException e then e
      else DatabaseOperationException ''chat_invocation'' (Some (str_exn e)))"

definition InvokeChat ::
  "'f collab \<Rightarrow> string option \<Rightarrow> UploadFile option \<Rightarrow> string \<Rightarrow> string \<Rightarrow> 'f \<Rightarrow> 'f \<Rightarrow> world \<Rightarrow>
     (exn + response_data) \<times> world" where
  "InvokeChat c text audio email model temperature top_p w =
     (if (text = None \<or> text = Some []) \<and> audio = None then
        (Inl (ValueError ''Either text or audio input must be provided''), w)
      else
        (case chat_body c text audio email model temperature top_p w of
           (Inl e, w') \<Rightarrow> (Inl (chat_handlers e), w')
         | (Inr response, w') \<Rightarrow> (Inr response, w')))"

section \<open>Sample data\<close>

text \<open>
  A character that a JSON string holds unescaped, and a store, collaborators and an
  upload on which the theorems below are instantiated.
\<close>

definition plain :: "char \<Rightarrow> bool" where
  "plain c = (32 \<le> (of_char c :: nat) \<and> c \<noteq> CHR 0x22 \<and> c \<noteq> CHR 0x5C)"

definition demo_rows :: "ChatMemory list" where
  "demo_rows =
     [\<lparr>m_id = ''m1'', user_id = ''u1'', role = ''user'', message = ''resume.pdf'',
       resume_details = Some ''Ada: ten years of compilers'', created_at = 1\<rparr>,
      \<lparr>m_id = ''m2'', user_id = ''u1'', role = ''user'', message = ''Tell me about yourself'',
       resume_details = None, created_at = 2\<rparr>,
      \<lparr>m_id = ''m3'', user_id = ''u1'', role = ''assistant'', message = ''I build compilers.'',
       resume_details = None, created_at = 3\<rparr>]"

definition demo_world :: world where
  "demo_world =
     \<lparr>users = [\<lparr>u_id = ''u1'', u_email = ''ada@example.com''\<rparr>],
      chat_memory = demo_rows,
      files = Map.empty,
      store_calls = 0, transcription_calls = 0, model_calls = 0\<rparr>"

definition demo_collab :: "rat collab" where
  \<open>demo_collab =
     \<lparr>email_str = Some,
      store_fault = (\<lambda>k. None),
      uuid4 = (\<lambda>k. if k = 0 then ''m4'' else ''m5''),
      now = 4,
      path_suffix = (\<lambda>f. ''.wav''),
      named_temporary_file = (\<lambda>suffix. Inr (''/tmp/tmp0'' @ suffix)),
      unlink_fault = (\<lambda>p. None),
      groq_api_key = Some ''key'',
      audio_transcriptions_create = (\<lambda>p d. Inr (Some ''Which languages do you use?'')),
      chat_completions_create =
        (\<lambda>p. Inr \<lparr>choices = Some [Some ''{"explanation":"I mostly write Standard ML.","code":""}''],
                  text_attr = None, str_repr = []\<rparr>),
      system_template = (''You are the candidate. Resume: '', ''. Answer in first person.''),
      invoke_template = (''History: '', '' Question: '', '' Answer:''),
      parse_json = (\<lambda>t. None)\<rparr>\<close>

definition demo_audio :: UploadFile where
  "demo_audio = \<lparr>filename = Some ''question.wav'', file_read = Inr ''RIFF....''\<rparr>"



section \<open>The constructor's length check\<close>

lemma init_min_length:
  "ChatResponseModel_init data = Inr r \<Longrightarrow> 10 \<le> length (explanation r)"
  by (auto simp: ChatResponseModel_init_def split: option.splits jvalue.splits if_splits)

lemma new_short:
  "length e < 10 \<Longrightarrow> ChatResponseModel_new e c = Inl (ValidationError ''string_too_short'')"
  by (simp add: ChatResponseModel_new_def ChatResponseModel_init_def dict_get_def)

lemma new_long:
  "10 \<le> length e \<Longrightarrow> ChatResponseModel_new e c = Inr \<lparr>explanation = e, code = c\<rparr>"
  by (simp add: ChatResponseModel_new_def ChatResponseModel_init_def dict_get_def)

lemma kwargs_min_length:
  "ChatResponseModel_kwargs v = Inr r \<Longrightarrow> 10 \<le> length (explanation r)"
  by (auto simp: ChatResponseModel_kwargs_def split: jvalue.splits dest: init_min_length)

lemma pure_json_stage_min_length:
  "pure_json_stage s = Returned r \<Longrightarrow> 10 \<le> length (explanation r)"
  by (auto simp: pure_json_stage_def split: if_splits sum.splits exn.splits dest: kwargs_min_length)

lemma fenced_json_stage_min_length:
  "fenced_json_stage s = Returned r \<Longrightarrow> 10 \<le> length (explanation r)"
  by (auto simp: fenced_json_stage_def split: if_splits option.splits sum.splits exn.splits
      dest: kwargs_min_length)

lemma markdown_stage_min_length:
  "markdown_stage s = Returned r \<Longrightarrow> 10 \<le> length (explanation r)"
  by (auto simp: markdown_stage_def Let_def ChatResponseModel_new_def
      split: if_splits sum.splits dest: init_min_length)

lemma parser_stage_min_length:
  "parser_stage P s = Returned r \<Longrightarrow> 10 \<le> length (explanation r)"
  by (auto simp: parser_stage_def PydanticOutputParser_parse_def
      split: option.splits jvalue.splits sum.splits dest: init_min_length)

lemma parse_structured_min_length:
  "parse_structured P t = Inr r \<Longrightarrow> 10 \<le> length (explanation r)"
  unfolding parse_structured_def Let_def
  by (auto split: stage.splits
      dest: pure_json_stage_min_length fenced_json_stage_min_length markdown_stage_min_length
        parser_stage_min_length init_min_length simp: ChatResponseModel_new_def)

lemma parse_response_min_length:
  "parse_response P t = Inr r \<Longrightarrow> 10 \<le> length (explanation r)"
  unfolding parse_response_def
  by (auto split: if_splits sum.splits dest: parse_structured_min_length init_min_length
      simp: ChatResponseModel_new_def)

lemma parse_response_handler:
  "t \<noteq> [] \<Longrightarrow> parse_structured P t = Inl e \<Longrightarrow> parse_response P t = ChatResponseModel_new t []"
  by (simp add: parse_response_def)

lemma parse_response_returned:
  "t \<noteq> [] \<Longrightarrow> parse_structured P t = Inr r \<Longrightarrow> parse_response P t = Inr r"
  by (simp add: parse_response_def)

section \<open>The reply extracted from the completion text\<close>

text \<open>
  The constructor of \<open>ChatResponseModel\<close> refuses an explanation of fewer than 10
  characters. For a raw text that is empty or has at least 10 characters the fallback of
  lines 192 and 199 can be built: the extraction returns a reply, the one a strategy
  produced or the raw text itself with empty code (for the empty text, the fixed notice of
  line 114).
\<close>

lemma parse_response_long_text:
  assumes "t = [] \<or> 10 \<le> length t"
  shows "\<exists>r. parse_response P t = Inr r \<and> 10 \<le> length (explanation r) \<and>
           (t = [] \<or> parse_structured P t = Inr r \<or> r = \<lparr>explanation = t, code = []\<rparr>)"
proof (cases "t = []")
  case True
  then show ?thesis
    by (simp add: parse_response_def new_long)
next
  case False
  with assms have long: "10 \<le> length t" by simp
  show ?thesis
  proof (cases "parse_structured P t")
    case (Inl e)
    with False long have "parse_response P t = Inr \<lparr>explanation = t, code = []\<rparr>"
      by (simp add: parse_response_handler new_long)
    with long show ?thesis by simp
  next
    case (Inr r)
    with False have "parse_response P t = Inr r"
      by (simp add: parse_response_returned)
    with Inr show ?thesis
      by (auto dest: parse_structured_min_length)
  qed
qed

lemma parse_response_long_text_example:
  "10 \<le> length ''just some plain prose with no markers'' \<and>
   (\<exists>r. parse_response (\<lambda>t. None) ''just some plain prose with no markers'' = Inr r \<and>
        10 \<le> length (explanation r))"
  using parse_response_long_text [of "''just some plain prose with no markers''" "\<lambda>t. None"]
  by auto

text \<open>
  C1. The extraction is meant never to raise: lines 188 to 199 catch the failure of every
  strategy and return the raw text as the explanation. They do so through the constructor
  of \<open>ChatResponseModel\<close>, which refuses an explanation of fewer than 10 characters,
  and the fallback of line 199 is in the handler, outside any \<open>try\<close>. So a short
  completion makes \<open>invoke\<close> raise \<open>ValidationError\<close>: the completion \<open>{}\<close> is
  parsed as JSON, the constructor raises for the missing explanation, the handler builds
  the fallback from the two characters of the raw text, and the constructor raises again.
  The same happens for the prose \<open>hi\<close> when the output parser finds nothing.
\<close>

theorem parse_response_short_text_raises:
  "(\<forall>P. parse_response P ''{}'' = Inl (ValidationError ''string_too_short'')) \<and>
   parse_response (\<lambda>t. None) ''hi'' = Inl (ValidationError ''string_too_short'')"
proof
  show "\<forall>P. parse_response P ''{}'' = Inl (ValidationError ''string_too_short'')"
    by (simp add: parse_response_def parse_structured_def strip_def isspace_def pure_json_stage_def
        startswith_def endswith_def json_loads_def skip_ws_def json_ws_def
        ChatResponseModel_kwargs_def ChatResponseModel_init_def dict_get_def new_short)
  show "parse_response (\<lambda>t. None) ''hi'' = Inl (ValidationError ''string_too_short'')"
    by (simp add: parse_response_def parse_structured_def strip_def isspace_def pure_json_stage_def
        startswith_def endswith_def fenced_json_stage_def markdown_stage_def lower_def
        lower_char_def parser_stage_def PydanticOutputParser_parse_def new_short)
qed

lemma scanstring_plain:
  "list_all plain e \<Longrightarrow> scanstring (e @ CHR 0x22 # r) = Some (e, r)"
  by (induction e) (auto simp: plain_def)

lemma json_loads_reply_object:
  assumes "list_all plain e" "list_all plain c"
  shows \<open>json_loads (''{"explanation":"'' @ e @ ''","code":"'' @ c @ ''"}'') =
         Inr (JObject [(''explanation'', JString e), (''code'', JString c)])\<close>
  using assms
  by (simp add: json_loads_def skip_ws_def json_ws_def scanstring_plain)

lemma strip_braces: "strip (CHR ''{'' # xs @ ''}'') = CHR ''{'' # xs @ ''}''"
  by (simp add: strip_def isspace_def)

lemma startswith_brace: "startswith (CHR ''{'' # xs) ''{''"
  by (simp add: startswith_def)

lemma endswith_brace: "endswith (ys @ ''}'') ''}''"
  by (simp add: endswith_def)

text \<open>
  C2, as the code has it. When the raw text is exactly the JSON object with the keys
  \<open>explanation\<close> and \<open>code\<close>, both values written without escapes and the explanation
  of at least 10 characters, the pure-JSON strategy succeeds and the reply holds the two
  values.
\<close>

theorem pure_json_reply:
  assumes "list_all plain e" "list_all plain c" "10 \<le> length e"
  shows \<open>pure_json_stage (''{"explanation":"'' @ e @ ''","code":"'' @ c @ ''"}'') =
           Returned \<lparr>explanation = e, code = c\<rparr> \<and>
         parse_response P (''{"explanation":"'' @ e @ ''","code":"'' @ c @ ''"}'') =
           Inr \<lparr>explanation = e, code = c\<rparr>\<close>
proof -
  let ?t = \<open>''{"explanation":"'' @ e @ ''","code":"'' @ c @ ''"}''\<close>
  have shape: \<open>?t = CHR ''{'' # (''"explanation":"'' @ e @ ''","code":"'' @ c @ ''"'') @ ''}''\<close>
    by simp
  have s: "strip ?t = ?t"
    unfolding shape by (rule strip_braces)
  have sw: "startswith ?t ''{''"
    unfolding shape by (rule startswith_brace)
  have ew: "endswith ?t ''}''"
    using endswith_brace [of \<open>''{"explanation":"'' @ e @ ''","code":"'' @ c @ ''"''\<close>] by simp
  have stage: "pure_json_stage ?t = Returned \<lparr>explanation = e, code = c\<rparr>"
    using sw ew assms(3) json_loads_reply_object [OF assms(1,2)]
    by (simp add: pure_json_stage_def ChatResponseModel_kwargs_def ChatResponseModel_init_def
        dict_get_def)
  then have "parse_structured P ?t = Inr \<lparr>explanation = e, code = c\<rparr>"
    using s by (simp add: parse_structured_def)
  then have "parse_response P ?t = Inr \<lparr>explanation = e, code = c\<rparr>"
    by (simp add: parse_response_def)
  with stage show ?thesis by simp
qed

theorem pure_json_reply_witness:
  \<open>list_all plain ''I built APIs.'' \<and> list_all plain ''print(1)'' \<and>
   10 \<le> length ''I built APIs.'' \<and>
   parse_response (\<lambda>t. None) ''{"explanation":"I built APIs.","code":"print(1)"}'' =
     Inr \<lparr>explanation = ''I built APIs.'', code = ''print(1)''\<rparr>\<close>
  using pure_json_reply [of "''I built APIs.''" "''print(1)''" "\<lambda>t. None"]
  by (simp add: plain_def)

text \<open>
  C2 fails on the claim's own input: the explanation \<open>x\<close> has one character, the
  constructor raises inside the pure-JSON strategy, and the handler of line 193 returns
  the raw text as the explanation, with empty code.
\<close>

theorem pure_json_short_explanation:
  \<open>pure_json_stage ''{"explanation":"x","code":"y"}'' = Raised (ValidationError ''string_too_short'') \<and>
   (\<forall>P. parse_response P ''{"explanation":"x","code":"y"}'' =
      Inr \<lparr>explanation = ''{"explanation":"x","code":"y"}'', code = []\<rparr>) \<and>
   (\<forall>P. parse_response P ''{"explanation":"x","code":"y"}'' \<noteq>
      Inr \<lparr>explanation = ''x'', code = ''y''\<rparr>)\<close>
proof -
  have stage: \<open>pure_json_stage ''{"explanation":"x","code":"y"}'' =
      Raised (ValidationError ''string_too_short'')\<close>
    by (simp add: pure_json_stage_def startswith_def endswith_def json_loads_def skip_ws_def
        json_ws_def ChatResponseModel_kwargs_def ChatResponseModel_init_def dict_get_def)
  have s: \<open>strip ''{"explanation":"x","code":"y"}'' = ''{"explanation":"x","code":"y"}''\<close>
    by (simp add: strip_def isspace_def)
  have reply: \<open>parse_response P ''{"explanation":"x","code":"y"}'' =
      Inr \<lparr>explanation = ''{"explanation":"x","code":"y"}'', code = []\<rparr>\<close> for P
    using stage s by (simp add: parse_response_def parse_structured_def new_long)
  from stage reply show ?thesis by simp
qed

text \<open>
  C3, as the code has it. When the raw text is empty, the extraction raises nothing and
  returns the fixed notice of line 114 as the explanation, with empty code.
\<close>

theorem empty_text_reply:
  "parse_response P [] =
     Inr \<lparr>explanation = ''No response received from the LLM.'', code = []\<rparr>"
  by (simp add: parse_response_def new_long)

text \<open>C3 fails as stated: the explanation returned for the empty text is not the empty text.\<close>

theorem empty_text_not_echoed:
  "\<forall>P. parse_response P [] \<noteq> Inr \<lparr>explanation = [], code = []\<rparr>"
  by (simp add: parse_response_def new_long)

text \<open>
  C10. Every \<open>ChatResponseModel\<close> is built by its constructor, which returns only
  explanations of at least 10 characters and raises \<open>ValidationError\<close> for a shorter one;
  so every reply the extraction returns has such an explanation, and when the handler of
  line 193 builds the fallback from a raw text of fewer than 10 characters, the
  extraction raises.
\<close>

theorem explanation_min_length:
  "(ChatResponseModel_init data = Inr r \<longrightarrow> 10 \<le> length (explanation r)) \<and>
   (length e < 10 \<longrightarrow> ChatResponseModel_new e c = Inl (ValidationError ''string_too_short'')) \<and>
   (parse_response P t = Inr r' \<longrightarrow> 10 \<le> length (explanation r')) \<and>
   (t' \<noteq> [] \<and> length t' < 10 \<and> parse_structured P' t' = Inl e' \<longrightarrow>
      parse_response P' t' = Inl (ValidationError ''string_too_short''))"
  by (auto dest: init_min_length parse_response_min_length simp: new_short parse_response_handler)

theorem explanation_min_length_witness:
  "ChatResponseModel_init [(''explanation'', JString ''0123456789'')] =
     Inr \<lparr>explanation = ''0123456789'', code = []\<rparr> \<and>
   10 \<le> length (explanation \<lparr>explanation = ''0123456789'', code = []\<rparr>) \<and>
   length ''too short'' < 10 \<and>
   ChatResponseModel_new ''too short'' [] = Inl (ValidationError ''string_too_short'') \<and>
   parse_response (\<lambda>t. None) ''a plain answer'' = Inr \<lparr>explanation = ''a plain answer'', code = []\<rparr> \<and>
   parse_structured (\<lambda>t. None) ''{}'' = Inl (ValidationError ''missing'') \<and>
   parse_response (\<lambda>t. None) ''{}'' = Inl (ValidationError ''string_too_short'')"
proof -
  have a: "ChatResponseModel_init [(''explanation'', JString ''0123456789'')] =
      Inr \<lparr>explanation = ''0123456789'', code = []\<rparr>"
    by (simp add: ChatResponseModel_init_def dict_get_def)
  have b: "parse_response (\<lambda>t. None) ''a plain answer'' =
      Inr \<lparr>explanation = ''a plain answer'', code = []\<rparr>"
    by (simp add: parse_response_def parse_structured_def strip_def isspace_def pure_json_stage_def
        startswith_def endswith_def fenced_json_stage_def markdown_stage_def lower_def
        lower_char_def parser_stage_def PydanticOutputParser_parse_def new_long)
  have c: "parse_structured (\<lambda>t. None) ''{}'' = Inl (ValidationError ''missing'')"
    by (simp add: parse_structured_def strip_def isspace_def pure_json_stage_def
        startswith_def endswith_def json_loads_def skip_ws_def json_ws_def
        ChatResponseModel_kwargs_def ChatResponseModel_init_def dict_get_def)
  show ?thesis
    using a b c
      explanation_min_length [of "[(''explanation'', JString ''0123456789'')]"
        "\<lparr>explanation = ''0123456789'', code = []\<rparr>" "''too short''" "[]" "\<lambda>t. None"
        "''a plain answer''" "\<lparr>explanation = ''a plain answer'', code = []\<rparr>" "''{}''"
        "\<lambda>t. None" "ValidationError ''missing''"]
    by simp
qed

section \<open>The orchestration\<close>

lemmas chat_defs =
  InvokeChat_def chat_body_def chat_handlers_def GetResumeDetails_def store_call_def
  query_user_def order_by_created_at_desc_def process_audio_def upload_suffix_def
  audio_handler_def cleanup_temp_def TranscribeAudio_def transcribe_request_def
  combine_input_def fetch_history_def recent_chat_messages_def history_of_def
  GetChain_invoke_def LlmRunnable_invoke_def Llm_def response_text_of_def
  save_conversation_def assistant_text_def

lemmas text_defs =
  strip_def isspace_def lower_def lower_char_def startswith_def endswith_def

lemmas reply_defs =
  parse_response_def parse_structured_def pure_json_stage_def json_loads_def skip_ws_def
  json_ws_def ChatResponseModel_kwargs_def ChatResponseModel_init_def
  ChatResponseModel_new_def dict_get_def

lemmas demo_defs = demo_world_def demo_collab_def demo_audio_def demo_rows_def

text \<open>
  C6. A request with neither text nor audio fails with the \<open>ValueError\<close> of line 93 (the
  validation error of this service: the controller reports it under the name
  \<open>ValidationError\<close>), and the state of the world is the one before the call: no call to
  the store, the transcription provider or the model provider has been counted. An empty
  text counts as absent.
\<close>

theorem InvokeChat_requires_input:
  "InvokeChat c None None email model temperature top_p w =
     (Inl (ValueError ''Either text or audio input must be provided''), w) \<and>
   InvokeChat c (Some []) None email model temperature top_p w =
     (Inl (ValueError ''Either text or audio input must be provided''), w)"
  by (simp add: InvokeChat_def)

text \<open>
  C9. When the audio file exists and has zero bytes, \<open>TranscribeAudio\<close> raises
  \<open>AudioTranscriptionException\<close> with the message \<open>Audio file is empty\<close> (the code's
  empty-audio error), whatever the provider would answer, and the world is unchanged: the
  provider has not been called.
\<close>

theorem TranscribeAudio_empty_file:
  "files w audio_path = Some (File []) \<Longrightarrow>
   TranscribeAudio c audio_path w =
     (Inl (AudioTranscriptionException ''Audio file is empty'' None), w)"
  by (simp add: TranscribeAudio_def)

theorem TranscribeAudio_empty_file_witness:
  "files (demo_world\<lparr>files := [''/tmp/empty.wav'' \<mapsto> File []]\<rparr>) ''/tmp/empty.wav'' = Some (File []) \<and>
   fst (TranscribeAudio demo_collab ''/tmp/empty.wav''
          (demo_world\<lparr>files := [''/tmp/empty.wav'' \<mapsto> File []]\<rparr>)) =
     Inl (AudioTranscriptionException ''Audio file is empty'' None) \<and>
   transcription_calls (snd (TranscribeAudio demo_collab ''/tmp/empty.wav''
          (demo_world\<lparr>files := [''/tmp/empty.wav'' \<mapsto> File []]\<rparr>))) = 0"
  using TranscribeAudio_empty_file
    [of "demo_world\<lparr>files := [''/tmp/empty.wav'' \<mapsto> File []]\<rparr>" "''/tmp/empty.wav''" demo_collab]
  by (simp add: demo_world_def)

lemma process_audio_transcription_failure:
  assumes "named_temporary_file c (upload_suffix c a) = Inr p"
    and "file_read a = Inr content"
    and "TranscribeAudio c p (w\<lparr>files := (files w)(p \<mapsto> File content)\<rparr>) = (Inl e, w')"
  shows "fst (process_audio c a w) =
           Inl (DatabaseOperationException ''audio_processing'' (Some (str_exn e)))"
  using assms by (simp add: process_audio_def audio_handler_def)

text \<open>
  C4, as the code has it. When audio is present, the user is found, the audio is saved
  and \<open>TranscribeAudio\<close> raises \<open>e\<close>, the orchestrator raises
  \<open>DatabaseOperationException\<close> for the operation \<open>audio_processing\<close>, with \<open>str(e)\<close> as its
  details (line 140): the failure reaches the caller and is not ignored.
\<close>

theorem transcription_failure_propagates:
  assumes "email_str c email = Some em"
    and "GetResumeDetails c em w = (Inr (rs, uid), w1)"
    and "named_temporary_file c (upload_suffix c a) = Inr p"
    and "file_read a = Inr content"
    and "TranscribeAudio c p (w1\<lparr>files := (files w1)(p \<mapsto> File content)\<rparr>) = (Inl e, w2)"
  shows "fst (InvokeChat c text (Some a) email model temperature top_p w) =
           Inl (DatabaseOperationException ''audio_processing'' (Some (str_exn e)))"
proof -
  have "fst (process_audio c a w1) =
          Inl (DatabaseOperationException ''audio_processing'' (Some (str_exn e)))"
    using assms(3-5) by (rule process_audio_transcription_failure)
  then obtain w3 where
    "process_audio c a w1 =
       (Inl (DatabaseOperationException ''audio_processing'' (Some (str_exn e))), w3)"
    by (cases "process_audio c a w1") simp
  with assms(1,2) show ?thesis
    by (simp add: InvokeChat_def chat_body_def chat_handlers_def)
qed

theorem transcription_failure_propagates_witness:
  "\<exists>rs uid w1 e w2.
     GetResumeDetails (demo_collab\<lparr>audio_transcriptions_create := (\<lambda>p d. Inl (GroqError ''timeout''))\<rparr>)
       ''ada@example.com'' demo_world = (Inr (rs, uid), w1) \<and>
     TranscribeAudio (demo_collab\<lparr>audio_transcriptions_create := (\<lambda>p d. Inl (GroqError ''timeout''))\<rparr>)
       ''/tmp/tmp0.wav'' (w1\<lparr>files := (files w1)(''/tmp/tmp0.wav'' \<mapsto> File ''RIFF....'')\<rparr>) = (Inl e, w2) \<and>
     fst (InvokeChat (demo_collab\<lparr>audio_transcriptions_create := (\<lambda>p d. Inl (GroqError ''timeout''))\<rparr>)
            (Some ''Hello'') (Some demo_audio) ''ada@example.com'' ''openai/gpt-oss-120b''
            (6 / 10) (95 / 100) demo_world) =
       Inl (DatabaseOperationException ''audio_processing'' (Some (str_exn e)))"
proof -
  let ?c = "demo_collab\<lparr>audio_transcriptions_create := (\<lambda>p d. Inl (GroqError ''timeout''))\<rparr>"
  have 1: "email_str ?c ''ada@example.com'' = Some ''ada@example.com''"
    by (simp add: demo_collab_def)
  obtain rs uid w1 where 2: "GetResumeDetails ?c ''ada@example.com'' demo_world = (Inr (rs, uid), w1)"
    by (simp add: GetResumeDetails_def store_call_def query_user_def demo_defs text_defs)
  have 3: "named_temporary_file ?c (upload_suffix ?c demo_audio) = Inr ''/tmp/tmp0.wav''"
    by (simp add: upload_suffix_def demo_defs)
  have 4: "file_read demo_audio = Inr ''RIFF....''"
    by (simp add: demo_defs)
  obtain e w2 where 5:
    "TranscribeAudio ?c ''/tmp/tmp0.wav''
       (w1\<lparr>files := (files w1)(''/tmp/tmp0.wav'' \<mapsto> File ''RIFF....'')\<rparr>) = (Inl e, w2)"
    by (simp add: TranscribeAudio_def transcribe_request_def demo_defs)
  from transcription_failure_propagates [OF 1 2 3 4 5] 2 5 show ?thesis
    by blast
qed

text \<open>
  C4 fails as stated: the error the caller receives when the provider fails is a
  \<open>DatabaseOperationException\<close>, not the transcription error
  (\<open>AudioTranscriptionException\<close>) that \<open>TranscribeAudio\<close> raised.
\<close>

theorem transcription_error_kind:
  "fst (InvokeChat (demo_collab\<lparr>audio_transcriptions_create := (\<lambda>p d. Inl (GroqError ''timeout''))\<rparr>)
          (Some ''Hello'') (Some demo_audio) ''ada@example.com'' ''openai/gpt-oss-120b''
          (6 / 10) (95 / 100) demo_world) =
     Inl (DatabaseOperationException ''audio_processing''
            (Some ''Failed to transcribe audio using Groq API'')) \<and>
   (\<forall>m d. fst (InvokeChat (demo_collab\<lparr>audio_transcriptions_create := (\<lambda>p d. Inl (GroqError ''timeout''))\<rparr>)
          (Some ''Hello'') (Some demo_audio) ''ada@example.com'' ''openai/gpt-oss-120b''
          (6 / 10) (95 / 100) demo_world) \<noteq> Inl (AudioTranscriptionException m d))"
  by (simp add: chat_defs demo_defs text_defs)

section \<open>The temporary audio file\<close>

lemma GetResumeDetails_files: "GetResumeDetails c em w = (r, w1) \<Longrightarrow> files w1 = files w"
  by (auto simp: GetResumeDetails_def store_call_def split: option.splits prod.splits)

lemma TranscribeAudio_files: "TranscribeAudio c p w = (r, w1) \<Longrightarrow> files w1 = files w"
  by (auto simp: TranscribeAudio_def transcribe_request_def Let_def
      split: option.splits node.splits sum.splits if_splits prod.splits)

lemma fetch_history_files: "fetch_history c e w = (h, u, w1) \<Longrightarrow> files w1 = files w"
  by (auto simp: fetch_history_def store_call_def split: option.splits prod.splits)

lemma GetChain_invoke_files:
  "GetChain_invoke c rd i h m t p w = (r, w1) \<Longrightarrow> files w1 = files w"
  by (auto simp: GetChain_invoke_def LlmRunnable_invoke_def Llm_def Let_def
      split: sum.splits if_splits prod.splits)

lemma save_conversation_files: "files (save_conversation c u i r w) = files w"
  by (auto simp: save_conversation_def store_call_def
      split: binding.splits option.splits prod.splits)

lemma cleanup_temp_removes:
  assumes "p \<noteq> []" "unlink_fault c p = None" "files w p = Some (File d)"
  shows "files (cleanup_temp c (Some p) w) = (files w)(p := None)"
  using assms by (simp add: cleanup_temp_def)

lemma process_audio_files:
  assumes "named_temporary_file c (upload_suffix c a) = Inr p"
    and "p \<noteq> []" and "unlink_fault c p = None" and "files w p = None"
    and "process_audio c a w = (r, w1)"
  shows "files w1 = files w"
proof (cases "file_read a")
  case (Inl e)
  have "files (cleanup_temp c (Some p) (w\<lparr>files := (files w)(p \<mapsto> File [])\<rparr>)) =
      ((files w)(p \<mapsto> File []))(p := None)"
    using assms(2,3) by (simp add: cleanup_temp_def)
  also have "\<dots> = files w"
    using assms(4) by (simp add: fun_upd_idem)
  finally show ?thesis
    using assms(1,5) Inl by (auto simp: process_audio_def)
next
  case (Inr content)
  obtain r' w' where t:
    "TranscribeAudio c p (w\<lparr>files := (files w)(p \<mapsto> File content)\<rparr>) = (r', w')"
    by (cases "TranscribeAudio c p (w\<lparr>files := (files w)(p \<mapsto> File content)\<rparr>)")
  then have f: "files w' = (files w)(p \<mapsto> File content)"
    by (auto dest: TranscribeAudio_files)
  then have "files (cleanup_temp c (Some p) w') = ((files w)(p \<mapsto> File content))(p := None)"
    using assms(2,3) by (simp add: cleanup_temp_def)
  also have "\<dots> = files w"
    using assms(4) by (simp add: fun_upd_idem)
  finally show ?thesis
    using assms(1,5) Inr t by (auto simp: process_audio_def split: sum.splits)
qed

text \<open>
  C5, as the code has it. For every call with audio present, when the path chosen for
  the temporary file is new and \<open>os.unlink\<close> does not fail on it, no file is left under
  that path when the call returns or raises, whichever way it ends; the files are those
  that were there before the call.
\<close>

theorem temp_file_removed:
  assumes "named_temporary_file c (upload_suffix c a) = Inr p"
    and "p \<noteq> []" and "files w p = None" and "unlink_fault c p = None"
  shows "files (snd (InvokeChat c text (Some a) email model temperature top_p w)) p = None \<and>
         files (snd (InvokeChat c text (Some a) email model temperature top_p w)) = files w"
proof -
  have "files (snd (chat_body c text (Some a) email model temperature top_p w)) = files w"
  proof (cases "email_str c email")
    case None
    then show ?thesis by (simp add: chat_body_def)
  next
    case (Some em)
    obtain r1 w1 where g: "GetResumeDetails c em w = (r1, w1)"
      by (cases "GetResumeDetails c em w")
    then have f1: "files w1 = files w" by (rule GetResumeDetails_files)
    show ?thesis
    proof (cases r1)
      case (Inl e)
      with Some g f1 show ?thesis by (simp add: chat_body_def)
    next
      case (Inr x)
      obtain rs uid where x: "x = (rs, uid)" by (cases x)
      obtain r2 w2 where pa: "process_audio c a w1 = (r2, w2)"
        by (cases "process_audio c a w1")
      from assms(3) f1 have "files w1 p = None" by simp
      from process_audio_files [OF assms(1,2,4) this pa] f1 have f2: "files w2 = files w"
        by simp
      show ?thesis
      proof (cases r2)
        case (Inl e)
        with Some g Inr x pa f2 show ?thesis by (simp add: chat_body_def)
      next
        case t: (Inr transcribed_text)
        show ?thesis
        proof (cases "combine_input text transcribed_text")
          case (Inl e)
          with Some g Inr x pa t f2 show ?thesis by (simp add: chat_body_def)
        next
          case i: (Inr input_text)
          obtain h u w3 where fh: "fetch_history c email w2 = (h, u, w3)"
            by (cases "fetch_history c email w2") auto
          then have f3: "files w3 = files w" using f2 by (auto dest: fetch_history_files)
          let ?rd = "case rs of [] \<Rightarrow> ''No resume details available.''
                     | latest_resume # _ \<Rightarrow>
                         (case resume_details latest_resume of None \<Rightarrow> [] | Some d \<Rightarrow> d)"
          obtain r4 w4 where gc:
            "GetChain_invoke c ?rd input_text h model temperature top_p w3 = (r4, w4)"
            by (cases "GetChain_invoke c ?rd input_text h model temperature top_p w3")
          then have f4: "files w4 = files w" using f3 by (auto dest: GetChain_invoke_files)
          from Some g Inr x pa t i fh gc f4 show ?thesis
            by (cases r4) (simp_all add: chat_body_def save_conversation_files)
        qed
      qed
    qed
  qed
  then have "files (snd (InvokeChat c text (Some a) email model temperature top_p w)) = files w"
    by (cases "chat_body c text (Some a) email model temperature top_p w")
      (auto simp: InvokeChat_def split: sum.splits)
  with assms(3) show ?thesis by simp
qed

theorem temp_file_removed_witness:
  "named_temporary_file demo_collab (upload_suffix demo_collab demo_audio) = Inr ''/tmp/tmp0.wav'' \<and>
   files demo_world ''/tmp/tmp0.wav'' = None \<and>
   unlink_fault demo_collab ''/tmp/tmp0.wav'' = None \<and>
   files (snd (InvokeChat demo_collab (Some ''Hello'') (Some demo_audio) ''ada@example.com''
                 ''openai/gpt-oss-120b'' (6 / 10) (95 / 100) demo_world)) ''/tmp/tmp0.wav'' = None"
proof -
  have 1: "named_temporary_file demo_collab (upload_suffix demo_collab demo_audio) = Inr ''/tmp/tmp0.wav''"
    by (simp add: upload_suffix_def demo_defs)
  have 2: "''/tmp/tmp0.wav'' \<noteq> []" by simp
  have 3: "files demo_world ''/tmp/tmp0.wav'' = None" by (simp add: demo_defs)
  have 4: "unlink_fault demo_collab ''/tmp/tmp0.wav'' = None" by (simp add: demo_defs)
  from temp_file_removed [OF 1 2 3 4] 1 3 4 show ?thesis by blast
qed

text \<open>
  C5 fails as stated where \<open>os.unlink\<close> raises: the handler of line 149 logs the
  exception, and the call returns its reply with the temporary file still there.
\<close>

theorem temp_file_left_when_unlink_fails:
  "files (snd (InvokeChat (demo_collab\<lparr>unlink_fault := (\<lambda>p. Some (Error ''Permission denied''))\<rparr>)
                 (Some ''Hello'') (Some demo_audio) ''ada@example.com''
                 ''openai/gpt-oss-120b'' (6 / 10) (95 / 100) demo_world)) ''/tmp/tmp0.wav'' =
     Some (File ''RIFF....'') \<and>
   fst (InvokeChat (demo_collab\<lparr>unlink_fault := (\<lambda>p. Some (Error ''Permission denied''))\<rparr>)
                 (Some ''Hello'') (Some demo_audio) ''ada@example.com''
                 ''openai/gpt-oss-120b'' (6 / 10) (95 / 100) demo_world) =
     Inr \<lparr>explanation = ''I mostly write Standard ML.'', code = [], response_user_id = ''u1''\<rparr>"
  by (simp add: chat_defs demo_defs text_defs reply_defs)

section \<open>The history window\<close>







section \<open>Saving the conversation\<close>











lemma save_conversation_rollback:
  "store_fault c (store_calls w) = Some e \<Longrightarrow>
   chat_memory (save_conversation c u input_text result w) = chat_memory w"
  by (auto simp: save_conversation_def store_call_def split: binding.splits option.splits)



end
